theory Spec2Isabelle
  imports Main "HOL-Library.Sublist"
begin

section \<open>The script \<^verbatim>\<open>GUI_test/simple_gui.py\<close>\<close>

text \<open>
  The script builds one Tk window with two entry boxes, two labels and one button, and
  binds the button to the function \<^verbatim>\<open>create_project\<close>:
  \<^verbatim>\<open>
  def create_project():
      project_name = project_name_entry.get()
      project_dir = project_dir_entry.get()
      utils.create_new_project(project_name, project_dir)
  \<close>
  Two libraries stand behind it and are not part of the script: the toolkit (tkinter) and
  the package \<^verbatim>\<open>sglm\<close>, whose \<^verbatim>\<open>utils.create_new_project\<close> is called. The
  toolkit is modelled as far as the script uses it; \<^verbatim>\<open>create_new_project\<close> is a
  parameter of every definition that calls it. The imports of lines 1 to 4 are taken to
  have succeeded. Texts are strings, that is lists of characters; the script passes them
  on and never looks inside them.
\<close>

subsection \<open>Exceptions, widgets and the state of the script\<close>

text \<open>
  What a statement can raise: \<open>NameError\<close> when a module-level name is read before its
  assignment, \<open>TclError\<close> when a widget that no longer exists is addressed,
  \<open>SystemExit\<close>, which the toolkit treats apart from every other exception, and
  \<open>Exc x\<close> for whatever else the collaborator raises. The collaborator may raise any
  of the four.
\<close>

datatype 'x exn = NameError | TclError | SystemExit | Exc 'x

text \<open>
  An entry box: not yet created (the module-level name is unbound), on screen with its
  current text, or destroyed together with its window.
\<close>

datatype entry = Unbound | Live string | Destroyed

datatype entry_ref = Project_name_entry | Project_dir_entry

datatype command = Create_project

datatype widget =
    Entry_widget entry_ref
  | Label_widget string
  | Button_widget string command

text \<open>
  The calls that \<^verbatim>\<open>create_project\<close> and the module body delegate to other code are
  recorded, in the order they are made, in the field \<open>calls\<close> of the state. The field is
  an observer: no definition reads it.
\<close>

datatype call = Call_get entry_ref | Call_create_new_project string string

text \<open>
  The state: the root window (open or closed, its title, the geometry asked for, the
  widgets packed into it, in the order of packing), the two entry boxes, the module-level variables \<^verbatim>\<open>project_name\<close> and
  \<^verbatim>\<open>project_dir\<close> (\<open>None\<close> while unbound), the world the collaborator works on (the
  file system), the record of calls, and the exceptions that the toolkit has reported for
  a callback.
\<close>

record ('w, 'x) gui =
  window_open :: bool
  title :: string
  geometry :: string
  packed :: "widget list"
  project_name_entry :: entry
  project_dir_entry :: entry
  project_name :: "string option"
  project_dir :: "string option"
  world :: 'w
  calls :: "call list"
  reported :: "'x exn list"

text \<open>
  \<^verbatim>\<open>utils.create_new_project(project_name, project_dir)\<close>: it receives two strings,
  which are immutable, and holds no reference to the widgets of the script; it works on
  its own world and either raises or returns a value.
\<close>

type_synonym ('w, 'x, 'r) collaborator =
  "string \<Rightarrow> string \<Rightarrow> 'w \<Rightarrow> ('x exn + 'r) \<times> 'w"

subsection \<open>Statements in sequence\<close>

text \<open>
  A statement takes the state and gives back the state it leaves, with either the
  exception it raised or its value. In a sequence the first exception ends the sequence,
  as an uncaught Python exception does.
\<close>

type_synonym ('s, 'x, 'a) prog = "'s \<Rightarrow> ('x exn + 'a) \<times> 's"

definition succeed :: "'a \<Rightarrow> ('s, 'x, 'a) prog" where
  "succeed a = (\<lambda>s. (Inr a, s))"

definition and_then :: "('s, 'x, 'a) prog \<Rightarrow> ('a \<Rightarrow> ('s, 'x, 'b) prog) \<Rightarrow> ('s, 'x, 'b) prog" where
  "and_then m f = (\<lambda>s. case m s of (Inl e, s') \<Rightarrow> (Inl e, s') | (Inr a, s') \<Rightarrow> f a s')"

definition update :: "('s \<Rightarrow> 's) \<Rightarrow> ('s, 'x, unit) prog" where
  "update f = (\<lambda>s. (Inr (), f s))"

subsection \<open>The toolkit operations the script uses\<close>

definition widget_state :: "entry_ref \<Rightarrow> ('w, 'x) gui \<Rightarrow> entry" where
  "widget_state r s =
     (case r of Project_name_entry \<Rightarrow> project_name_entry s
              | Project_dir_entry \<Rightarrow> project_dir_entry s)"

text \<open>
  \<^verbatim>\<open>project_name_entry.get()\<close> and \<^verbatim>\<open>project_dir_entry.get()\<close>: the name is looked
  up among the module-level variables (\<open>NameError\<close> when it is unbound, and then no call
  is made), and \<^verbatim>\<open>Entry.get\<close> returns the current text of a live entry box as it is
  and raises \<open>TclError\<close> for a destroyed one. The widget is not changed.
\<close>

definition entry_get :: "entry_ref \<Rightarrow> (('w, 'x) gui, 'x, string) prog" where
  "entry_get r =
     (\<lambda>s. case widget_state r s of
             Unbound \<Rightarrow> (Inl NameError, s)
           | Live t \<Rightarrow> (Inr t, s\<lparr>calls := calls s @ [Call_get r]\<rparr>)
           | Destroyed \<Rightarrow> (Inl TclError, s\<lparr>calls := calls s @ [Call_get r]\<rparr>))"

text \<open>\<^verbatim>\<open>tk.Entry(root)\<close> bound to a module-level name: a new, empty entry box.\<close>

definition tk_Entry :: "entry_ref \<Rightarrow> (('w, 'x) gui, 'x, unit) prog" where
  "tk_Entry r =
     update (\<lambda>s. case r of Project_name_entry \<Rightarrow> s\<lparr>project_name_entry := Live []\<rparr>
                         | Project_dir_entry \<Rightarrow> s\<lparr>project_dir_entry := Live []\<rparr>)"

definition pack :: "widget \<Rightarrow> (('w, 'x) gui, 'x, unit) prog" where
  "pack wd = update (\<lambda>s. s\<lparr>packed := packed s @ [wd]\<rparr>)"

text \<open>
  The call of the collaborator: the world is whatever the collaborator leaves, also when
  it raises.
\<close>

definition create_new_project ::
  "('w, 'x, 'r) collaborator \<Rightarrow> string \<Rightarrow> string \<Rightarrow> (('w, 'x) gui, 'x, 'r) prog" where
  "create_new_project cnp a b =
     (\<lambda>s. case cnp a b (world s) of
             (res, w') \<Rightarrow> (res, s\<lparr>world := w', calls := calls s @ [Call_create_new_project a b]\<rparr>))"

subsection \<open>The click handler (lines 6 to 9)\<close>

text \<open>
  The names \<open>project_name\<close> and \<open>project_dir\<close> bound below are the locals of the
  function; they hide the module-level variables of the same names, as they do in Python,
  where a name assigned in a function body is local to it. The function has no
  \<^verbatim>\<open>return\<close> statement: its value is \<open>None\<close>.
\<close>

definition create_project ::
  "('w, 'x, 'r) collaborator \<Rightarrow> (('w, 'x) gui, 'x, 'r option) prog" where
  "create_project cnp =
     and_then (entry_get Project_name_entry) (\<lambda>project_name.
     and_then (entry_get Project_dir_entry) (\<lambda>project_dir.
     and_then (create_new_project cnp project_name project_dir) (\<lambda>_.
     succeed None)))"

text \<open>The calls one run of the handler adds to the record, and the collaborator calls among them.\<close>

definition activation_trace :: "('w, 'x, 'r) collaborator \<Rightarrow> ('w, 'x) gui \<Rightarrow> call list" where
  "activation_trace cnp s = drop (length (calls s)) (calls (snd (create_project cnp s)))"

fun collaborator_calls :: "call list \<Rightarrow> (string \<times> string) list" where
  "collaborator_calls [] = []"
| "collaborator_calls (Call_get r # cs) = collaborator_calls cs"
| "collaborator_calls (Call_create_new_project a b # cs) = (a, b) # collaborator_calls cs"

subsection \<open>The module body (lines 12 to 34)\<close>

text \<open>The state once \<^verbatim>\<open>tk.Tk()\<close> has returned the root window.\<close>

definition tk_Tk :: "'w \<Rightarrow> ('w, 'x) gui" where
  "tk_Tk w =
     \<lparr>window_open = True, title = ''tk'', geometry = [], packed = [],
      project_name_entry = Unbound, project_dir_entry = Unbound,
      project_name = None, project_dir = None,
      world = w, calls = [], reported = []\<rparr>"

definition module_body :: "(('w, 'x) gui, 'x, unit) prog" where
  "module_body =
     and_then (update (\<lambda>s. s\<lparr>title := ''Simple GLM GUI''\<rparr>)) (\<lambda>_.
     and_then (update (\<lambda>s. s\<lparr>geometry := ''750x270''\<rparr>)) (\<lambda>_.
     and_then (tk_Entry Project_name_entry) (\<lambda>_.
     and_then (pack (Entry_widget Project_name_entry)) (\<lambda>_.
     and_then (pack (Label_widget ''Choose a project name'')) (\<lambda>_.
     and_then (tk_Entry Project_dir_entry) (\<lambda>_.
     and_then (pack (Entry_widget Project_dir_entry)) (\<lambda>_.
     and_then (pack (Label_widget ''Choose a project directory'')) (\<lambda>_.
     and_then (entry_get Project_name_entry) (\<lambda>v.
     and_then (update (\<lambda>s. s\<lparr>project_name := Some v\<rparr>)) (\<lambda>_.
     and_then (entry_get Project_dir_entry) (\<lambda>v.
     and_then (update (\<lambda>s. s\<lparr>project_dir := Some v\<rparr>)) (\<lambda>_.
     pack (Button_widget ''Create a project'' Create_project)))))))))))))"

text \<open>
  The module body without the two statements of lines 29 and 30, as the specification
  proposes to write it; to be compared with \<open>module_body\<close>.
\<close>

definition module_body_without_reads :: "(('w, 'x) gui, 'x, unit) prog" where
  "module_body_without_reads =
     and_then (update (\<lambda>s. s\<lparr>title := ''Simple GLM GUI''\<rparr>)) (\<lambda>_.
     and_then (update (\<lambda>s. s\<lparr>geometry := ''750x270''\<rparr>)) (\<lambda>_.
     and_then (tk_Entry Project_name_entry) (\<lambda>_.
     and_then (pack (Entry_widget Project_name_entry)) (\<lambda>_.
     and_then (pack (Label_widget ''Choose a project name'')) (\<lambda>_.
     and_then (tk_Entry Project_dir_entry) (\<lambda>_.
     and_then (pack (Entry_widget Project_dir_entry)) (\<lambda>_.
     and_then (pack (Label_widget ''Choose a project directory'')) (\<lambda>_.
     pack (Button_widget ''Create a project'' Create_project)))))))))"

subsection \<open>The main loop (line 37)\<close>

text \<open>
  What the user can do with the window: replace the text of either entry box, click the
  button, close the window. The toolkit runs the command of a clicked button inside its
  callback wrapper, \<^verbatim>\<open>CallWrapper.__call__\<close>:
  \<^verbatim>\<open>
  try:
      return self.func(*args)
  except SystemExit:
      raise
  except:
      self.widget._report_exception()
  \<close>
  \<open>SystemExit\<close> is raised again; nothing in the script catches it, so it leaves the main
  loop and the script, and the process ends, its window with it. Any other exception is
  reported (the traceback is printed) and the loop goes on. Closing the window destroys
  its widgets and ends the loop.
\<close>

datatype user_event = Type_name string | Type_dir string | Click | Close

definition set_text :: "string \<Rightarrow> entry \<Rightarrow> entry" where
  "set_text t e = (case e of Live _ \<Rightarrow> Live t | _ \<Rightarrow> e)"

definition destroyed :: "entry \<Rightarrow> entry" where
  "destroyed e = (case e of Live _ \<Rightarrow> Destroyed | _ \<Rightarrow> e)"

definition run_command :: "('w, 'x, 'r) collaborator \<Rightarrow> command \<Rightarrow> (('w, 'x) gui, 'x, 'r option) prog" where
  "run_command cnp c = (case c of Create_project \<Rightarrow> create_project cnp)"

definition serve_click :: "('w, 'x, 'r) collaborator \<Rightarrow> (('w, 'x) gui, 'x, unit) prog" where
  "serve_click cnp =
     (\<lambda>s. case run_command cnp Create_project s of
             (Inl e, s') \<Rightarrow>
               (case e of
                  SystemExit \<Rightarrow> (Inl SystemExit, s'\<lparr>window_open := False\<rparr>)
                | _ \<Rightarrow> (Inr (), s'\<lparr>reported := reported s' @ [e]\<rparr>))
           | (Inr _, s') \<Rightarrow> (Inr (), s'))"

text \<open>The state a click leaves.\<close>

definition click :: "('w, 'x, 'r) collaborator \<Rightarrow> ('w, 'x) gui \<Rightarrow> ('w, 'x) gui" where
  "click cnp s = snd (serve_click cnp s)"

definition handle_event ::
  "('w, 'x, 'r) collaborator \<Rightarrow> user_event \<Rightarrow> (('w, 'x) gui, 'x, unit) prog" where
  "handle_event cnp ev =
     (case ev of
        Type_name t \<Rightarrow>
          update (\<lambda>s. s\<lparr>project_name_entry := set_text t (project_name_entry s)\<rparr>)
      | Type_dir t \<Rightarrow>
          update (\<lambda>s. s\<lparr>project_dir_entry := set_text t (project_dir_entry s)\<rparr>)
      | Click \<Rightarrow> serve_click cnp
      | Close \<Rightarrow>
          update (\<lambda>s. s\<lparr>window_open := False,
                          project_name_entry := destroyed (project_name_entry s),
                          project_dir_entry := destroyed (project_dir_entry s)\<rparr>))"

text \<open>
  The loop serves the events one after the other while the window is open; an exception
  that leaves the service of an event leaves the loop.
\<close>

fun mainloop ::
  "('w, 'x, 'r) collaborator \<Rightarrow> user_event list \<Rightarrow> (('w, 'x) gui, 'x, unit) prog" where
  "mainloop cnp [] s = (Inr (), s)"
| "mainloop cnp (ev # evs) s =
     (if window_open s
      then (case handle_event cnp ev s of
              (Inl e, s') \<Rightarrow> (Inl e, s')
            | (Inr _, s') \<Rightarrow> mainloop cnp evs s')
      else (Inr (), s))"

text \<open>The traces of the runs of the handler that the loop starts, one for each click it serves.\<close>

fun activations :: "('w, 'x, 'r) collaborator \<Rightarrow> user_event list \<Rightarrow> ('w, 'x) gui \<Rightarrow> call list list" where
  "activations cnp [] s = []"
| "activations cnp (ev # evs) s =
     (if window_open s
      then (case ev of Click \<Rightarrow> [activation_trace cnp s] | _ \<Rightarrow> [])
             @ (case handle_event cnp ev s of
                  (Inl e, s') \<Rightarrow> []
                | (Inr _, s') \<Rightarrow> activations cnp evs s')
      else [])"

text \<open>The whole script, for the events of one session, and the script without lines 29 and 30.\<close>

definition program ::
  "('w, 'x, 'r) collaborator \<Rightarrow> user_event list \<Rightarrow> 'w \<Rightarrow> ('x exn + unit) \<times> ('w, 'x) gui" where
  "program cnp evs w = and_then module_body (\<lambda>_. mainloop cnp evs) (tk_Tk w)"

definition program_without_reads ::
  "('w, 'x, 'r) collaborator \<Rightarrow> user_event list \<Rightarrow> 'w \<Rightarrow> ('x exn + unit) \<times> ('w, 'x) gui" where
  "program_without_reads cnp evs w =
     and_then module_body_without_reads (\<lambda>_. mainloop cnp evs) (tk_Tk w)"

text \<open>
  What of the final state can be observed from outside the interpreter: the window and
  its widgets, the contents of the entry boxes, the world of the collaborator, the calls
  the collaborator received, and the exceptions reported; also whether the script ended
  in an exception, and in which.
\<close>

definition behaviour ::
  "('x exn + unit) \<times> ('w, 'x) gui \<Rightarrow>
   ('x exn + unit) \<times> bool \<times> string \<times> string \<times> widget list \<times> entry \<times> entry \<times> 'w \<times> (string \<times> string) list \<times> 'x exn list" where
  "behaviour rs =
     (case rs of (res, s) \<Rightarrow>
        (res, window_open s, title s, geometry s, packed s,
         project_name_entry s, project_dir_entry s, world s,
         collaborator_calls (calls s), reported s))"

text \<open>The controls the user can act on: entry boxes and buttons, not labels.\<close>

fun interactive :: "widget \<Rightarrow> bool" where
  "interactive (Entry_widget r) = True"
| "interactive (Label_widget t) = False"
| "interactive (Button_widget t c) = True"

subsection \<open>A collaborator and sessions for the examples\<close>

text \<open>
  A collaborator to run the definitions on: its world is the list of project paths made so
  far; it raises when the path exists already and otherwise adds it and returns it.
\<close>

definition demo_create_new_project :: "(string list, string, string) collaborator" where
  "demo_create_new_project a b w =
     (let path = b @ ''/'' @ a
      in if path \<in> set w then (Inl (Exc ''FileExistsError''), w) else (Inr path, path # w))"

text \<open>A collaborator that ends the interpreter, as a call of \<^verbatim>\<open>sys.exit()\<close> does.\<close>

definition demo_exit :: "(string list, string, string) collaborator" where
  "demo_exit a b w = (Inl SystemExit, w)"

text \<open>
  A collaborator whose value is changed by \<open>f\<close> wherever it returns one; it raises and
  changes the world as before.
\<close>

definition returning :: "('r \<Rightarrow> 'q) \<Rightarrow> ('w, 'x, 'r) collaborator \<Rightarrow> ('w, 'x, 'q) collaborator" where
  "returning f cnp =
     (\<lambda>a b w. case cnp a b w of (Inl e, w') \<Rightarrow> (Inl e, w') | (Inr r, w') \<Rightarrow> (Inr (f r), w'))"

text \<open>
  Sessions: the user has filled in both entry boxes; has clicked once on top of that; has
  closed the window instead. Then a state no session reaches, with the directory entry
  alone destroyed. Last a session of the script without lines 29 and 30, with another
  collaborator (it counts its calls and always raises), in which a project of another name
  was asked for before the boxes were filled in as in the first session.
\<close>

definition session_typed :: "(string list, string) gui" where
  "session_typed =
     snd (program demo_create_new_project
            [Type_name ''MyProject'', Type_dir ''/tmp/projects''] [])"

definition session_created :: "(string list, string) gui" where
  "session_created =
     snd (program demo_create_new_project
            [Type_name ''MyProject'', Type_dir ''/tmp/projects'', Click] [])"

definition session_closed :: "(string list, string) gui" where
  "session_closed =
     snd (program demo_create_new_project
            [Type_name ''MyProject'', Type_dir ''/tmp/projects'', Close] [])"

definition session_dir_gone :: "(string list, string) gui" where
  "session_dir_gone = session_typed\<lparr>project_dir_entry := Destroyed\<rparr>"

definition session_other :: "(nat, unit) gui" where
  "session_other =
     snd (program_without_reads (\<lambda>a b n. (Inl TclError :: unit exn + bool, Suc n))
            [Type_name ''Other'', Click, Type_name ''MyProject'', Type_dir ''/tmp/projects''] 0)"

section \<open>Basic facts\<close>

text \<open>The handler, one case for each way it can end.\<close>

lemma create_project_unfold:
  "create_project cnp s =
     (case project_name_entry s of
        Unbound \<Rightarrow> (Inl NameError, s)
      | Destroyed \<Rightarrow> (Inl TclError, s\<lparr>calls := calls s @ [Call_get Project_name_entry]\<rparr>)
      | Live a \<Rightarrow>
          (case project_dir_entry s of
             Unbound \<Rightarrow> (Inl NameError, s\<lparr>calls := calls s @ [Call_get Project_name_entry]\<rparr>)
           | Destroyed \<Rightarrow>
               (Inl TclError,
                s\<lparr>calls := calls s @ [Call_get Project_name_entry, Call_get Project_dir_entry]\<rparr>)
           | Live b \<Rightarrow>
               (case cnp a b (world s) of
                  (Inl e, w') \<Rightarrow>
                    (Inl e, s\<lparr>world := w',
                       calls := calls s @ [Call_get Project_name_entry, Call_get Project_dir_entry,
                                           Call_create_new_project a b]\<rparr>)
                | (Inr r, w') \<Rightarrow>
                    (Inr None, s\<lparr>world := w',
                       calls := calls s @ [Call_get Project_name_entry, Call_get Project_dir_entry,
                                           Call_create_new_project a b]\<rparr>))))"
  by (cases "project_name_entry s"; cases "project_dir_entry s")
    (auto simp: create_project_def and_then_def entry_get_def create_new_project_def
      succeed_def widget_state_def split: sum.splits prod.splits)

lemma fst_entry_get:
  "fst (entry_get Project_name_entry s) =
     (case project_name_entry s of
        Unbound \<Rightarrow> Inl NameError | Live t \<Rightarrow> Inr t | Destroyed \<Rightarrow> Inl TclError)"
  "fst (entry_get Project_dir_entry s) =
     (case project_dir_entry s of
        Unbound \<Rightarrow> Inl NameError | Live t \<Rightarrow> Inr t | Destroyed \<Rightarrow> Inl TclError)"
  by (simp_all add: entry_get_def widget_state_def split: entry.splits)

lemma activation_trace_unfold:
  "activation_trace cnp s =
     (case project_name_entry s of
        Unbound \<Rightarrow> []
      | Destroyed \<Rightarrow> [Call_get Project_name_entry]
      | Live a \<Rightarrow>
          (case project_dir_entry s of
             Unbound \<Rightarrow> [Call_get Project_name_entry]
           | Destroyed \<Rightarrow> [Call_get Project_name_entry, Call_get Project_dir_entry]
           | Live b \<Rightarrow> [Call_get Project_name_entry, Call_get Project_dir_entry,
                        Call_create_new_project a b]))"
  by (simp add: activation_trace_def create_project_unfold split: sum.splits prod.splits entry.splits)

lemma calls_create_project:
  "calls (snd (create_project cnp s)) = calls s @ activation_trace cnp s"
  by (simp add: activation_trace_unfold create_project_unfold
      split: sum.splits prod.splits entry.splits)

lemma create_project_frame:
  "window_open (snd (create_project cnp s)) = window_open s"
  "title (snd (create_project cnp s)) = title s"
  "geometry (snd (create_project cnp s)) = geometry s"
  "packed (snd (create_project cnp s)) = packed s"
  "project_name_entry (snd (create_project cnp s)) = project_name_entry s"
  "project_dir_entry (snd (create_project cnp s)) = project_dir_entry s"
  "project_name (snd (create_project cnp s)) = project_name s"
  "project_dir (snd (create_project cnp s)) = project_dir s"
  "reported (snd (create_project cnp s)) = reported s"
  by (simp_all add: create_project_unfold split: sum.splits prod.splits entry.splits)

lemma world_create_project:
  "project_name_entry s = Live a \<Longrightarrow> project_dir_entry s = Live b \<Longrightarrow>
   world (snd (create_project cnp s)) = snd (cnp a b (world s))"
  by (simp add: create_project_unfold split: sum.splits prod.splits)

lemma collaborator_calls_append:
  "collaborator_calls (xs @ ys) = collaborator_calls xs @ collaborator_calls ys"
  by (induction xs rule: collaborator_calls.induct) simp_all

lemma collaborator_calls_activation:
  "collaborator_calls (activation_trace cnp s) =
     (case project_name_entry s of
        Live a \<Rightarrow> (case project_dir_entry s of Live b \<Rightarrow> [(a, b)] | _ \<Rightarrow> [])
      | _ \<Rightarrow> [])"
  by (simp add: activation_trace_unfold split: entry.splits)

lemma click_unfold:
  "click cnp s =
     (case create_project cnp s of
        (Inl e, s') \<Rightarrow>
          (if e = SystemExit then s'\<lparr>window_open := False\<rparr>
           else s'\<lparr>reported := reported s' @ [e]\<rparr>)
      | (Inr v, s') \<Rightarrow> s')"
  by (simp add: click_def serve_click_def run_command_def split: prod.splits sum.splits exn.splits)

lemma serve_click_unfold:
  "serve_click cnp s =
     (if fst (create_project cnp s) = Inl SystemExit then Inl SystemExit else Inr (),
      click cnp s)"
  by (simp add: click_def serve_click_def run_command_def
      split: prod.splits sum.splits exn.splits)

lemma window_open_click:
  "window_open (click cnp s) \<longleftrightarrow> window_open s \<and> fst (create_project cnp s) \<noteq> Inl SystemExit"
proof -
  obtain r t where c: "create_project cnp s = (r, t)"
    by (cases "create_project cnp s")
  have t: "window_open t = window_open s"
    using create_project_frame(1) [of cnp s] by (simp add: c)
  show ?thesis
    by (cases r) (auto simp: click_unfold c t)
qed

lemma no_exit_create_project:
  assumes "\<And>a b v. fst (cnp a b v) \<noteq> Inl SystemExit"
  shows "fst (create_project cnp s) \<noteq> Inl SystemExit"
proof (cases "project_name_entry s"; cases "project_dir_entry s")
  fix a b
  assume live: "project_name_entry s = Live a" "project_dir_entry s = Live b"
  from assms [of a b "world s"] show ?thesis
    by (cases "cnp a b (world s)") (auto simp: create_project_unfold live split: sum.splits)
qed (simp_all add: create_project_unfold)

lemma click_frame:
  "title (click cnp s) = title s"
  "geometry (click cnp s) = geometry s"
  "packed (click cnp s) = packed s"
  "project_name_entry (click cnp s) = project_name_entry s"
  "project_dir_entry (click cnp s) = project_dir_entry s"
  "project_name (click cnp s) = project_name s"
  "project_dir (click cnp s) = project_dir s"
  "world (click cnp s) = world (snd (create_project cnp s))"
  "calls (click cnp s) = calls (snd (create_project cnp s))"
proof -
  obtain r t where c: "create_project cnp s = (r, t)"
    by (cases "create_project cnp s")
  have t: "title t = title s" "geometry t = geometry s" "packed t = packed s"
    "project_name_entry t = project_name_entry s" "project_dir_entry t = project_dir_entry s"
    "project_name t = project_name s" "project_dir t = project_dir s"
    using create_project_frame [of cnp s] by (simp_all add: c)
  have k: "click cnp s =
      (case r of
         Inl e \<Rightarrow> (if e = SystemExit then t\<lparr>window_open := False\<rparr>
                   else t\<lparr>reported := reported t @ [e]\<rparr>)
       | Inr v \<Rightarrow> t)"
    by (simp add: click_unfold c)
  show "title (click cnp s) = title s"
    and "geometry (click cnp s) = geometry s"
    and "packed (click cnp s) = packed s"
    and "project_name_entry (click cnp s) = project_name_entry s"
    and "project_dir_entry (click cnp s) = project_dir_entry s"
    and "project_name (click cnp s) = project_name s"
    and "project_dir (click cnp s) = project_dir s"
    and "world (click cnp s) = world (snd (create_project cnp s))"
    and "calls (click cnp s) = calls (snd (create_project cnp s))"
    by (cases r; simp add: k t c)+
qed

text \<open>The module body runs without an exception; the state it leaves.\<close>

lemma module_body_tk_Tk:
  "module_body (tk_Tk w) =
     (Inr (),
      \<lparr>window_open = True, title = ''Simple GLM GUI'', geometry = ''750x270'',
       packed = [Entry_widget Project_name_entry, Label_widget ''Choose a project name'',
                 Entry_widget Project_dir_entry, Label_widget ''Choose a project directory'',
                 Button_widget ''Create a project'' Create_project],
       project_name_entry = Live [], project_dir_entry = Live [],
       project_name = Some [], project_dir = Some [],
       world = w, calls = [Call_get Project_name_entry, Call_get Project_dir_entry],
       reported = []\<rparr>)"
  by (simp add: module_body_def tk_Tk_def and_then_def update_def tk_Entry_def pack_def
      entry_get_def widget_state_def)

lemma module_body_without_reads_tk_Tk:
  "module_body_without_reads (tk_Tk w) =
     (Inr (),
      \<lparr>window_open = True, title = ''Simple GLM GUI'', geometry = ''750x270'',
       packed = [Entry_widget Project_name_entry, Label_widget ''Choose a project name'',
                 Entry_widget Project_dir_entry, Label_widget ''Choose a project directory'',
                 Button_widget ''Create a project'' Create_project],
       project_name_entry = Live [], project_dir_entry = Live [],
       project_name = None, project_dir = None,
       world = w, calls = [], reported = []\<rparr>)"
  by (simp add: module_body_without_reads_def tk_Tk_def and_then_def update_def tk_Entry_def
      pack_def)

lemma program_unfold:
  "program cnp evs w = mainloop cnp evs (snd (module_body (tk_Tk w)))"
  by (simp add: program_def and_then_def module_body_tk_Tk)

lemma program_without_reads_unfold:
  "program_without_reads cnp evs w =
     mainloop cnp evs (snd (module_body_without_reads (tk_Tk w)))"
  by (simp add: program_without_reads_def and_then_def module_body_without_reads_tk_Tk)

text \<open>
  States that differ in the module-level variables \<open>project_name\<close> and \<open>project_dir\<close>
  and in the calls made earlier go through the handler, a click, an event and the loop
  side by side.
\<close>

lemma create_project_shift:
  "create_project cnp (s\<lparr>project_name := p, project_dir := q, calls := pre @ calls s\<rparr>) =
     (fst (create_project cnp s),
      (snd (create_project cnp s))
        \<lparr>project_name := p, project_dir := q, calls := pre @ calls (snd (create_project cnp s))\<rparr>)"
  by (simp add: create_project_unfold split: sum.splits prod.splits entry.splits)

lemma click_shift:
  "click cnp (s\<lparr>project_name := p, project_dir := q, calls := pre @ calls s\<rparr>) =
     (click cnp s)\<lparr>project_name := p, project_dir := q, calls := pre @ calls (click cnp s)\<rparr>"
  by (simp add: click_unfold create_project_shift split: sum.splits prod.splits)

lemma handle_event_shift:
  "handle_event cnp ev (s\<lparr>project_name := p, project_dir := q, calls := pre @ calls s\<rparr>) =
     (fst (handle_event cnp ev s),
      (snd (handle_event cnp ev s))
        \<lparr>project_name := p, project_dir := q,
         calls := pre @ calls (snd (handle_event cnp ev s))\<rparr>)"
  by (cases ev)
    (simp_all add: handle_event_def update_def serve_click_unfold click_shift create_project_shift)

lemma mainloop_shift:
  "mainloop cnp evs (s\<lparr>project_name := p, project_dir := q, calls := pre @ calls s\<rparr>) =
     (fst (mainloop cnp evs s),
      (snd (mainloop cnp evs s))
        \<lparr>project_name := p, project_dir := q,
         calls := pre @ calls (snd (mainloop cnp evs s))\<rparr>)"
proof (induction evs arbitrary: s)
  case Nil
  show ?case by simp
next
  case (Cons ev evs)
  show ?case
  proof (cases "window_open s")
    case True
    obtain r t where step: "handle_event cnp ev s = (r, t)"
      by (cases "handle_event cnp ev s")
    show ?thesis
      using True by (cases r) (simp_all add: handle_event_shift step Cons.IH)
  next
    case False
    then show ?thesis by simp
  qed
qed

lemma module_body_shift:
  "snd (module_body (tk_Tk w)) =
     (snd (module_body_without_reads (tk_Tk w)))
       \<lparr>project_name := Some [], project_dir := Some [],
        calls := [Call_get Project_name_entry, Call_get Project_dir_entry]
                   @ calls (snd (module_body_without_reads (tk_Tk w)))\<rparr>"
  by (simp add: module_body_tk_Tk module_body_without_reads_tk_Tk)

lemma returning_create_project:
  "create_project (returning f cnp) s =
     (map_sum id (map_option f) (fst (create_project cnp s)), snd (create_project cnp s))"
  by (simp add: create_project_unfold returning_def split: sum.splits prod.splits entry.splits)

text \<open>The loop: the window stays as it is unless it is closed; while it is open both entry
  boxes are live; the calls of a session are those of its activations.\<close>

lemma handle_event_packed:
  "packed (snd (handle_event cnp ev s)) = packed s"
  by (cases ev) (simp_all add: handle_event_def update_def serve_click_unfold click_frame)

lemma handle_event_ok:
  "ev \<noteq> Click \<Longrightarrow> fst (handle_event cnp ev s) = Inr ()"
  by (cases ev) (simp_all add: handle_event_def update_def)

lemma handle_event_open:
  "ev \<noteq> Close \<Longrightarrow> fst (handle_event cnp ev s) = Inr () \<Longrightarrow>
     window_open (snd (handle_event cnp ev s)) = window_open s"
  by (cases ev)
    (auto simp: handle_event_def update_def serve_click_unfold window_open_click
      split: if_splits)

lemma mainloop_stays_open:
  assumes "Close \<notin> set evs" and "\<And>a b v. fst (cnp a b v) \<noteq> Inl SystemExit"
  shows "fst (mainloop cnp evs s) = Inr ()
       \<and> window_open (snd (mainloop cnp evs s)) = window_open s
       \<and> packed (snd (mainloop cnp evs s)) = packed s"
  using assms(1)
proof (induction evs arbitrary: s)
  case Nil
  show ?case by simp
next
  case (Cons ev evs)
  then have ev: "ev \<noteq> Close" and rest: "Close \<notin> set evs" by auto
  obtain r t where step: "handle_event cnp ev s = (r, t)"
    by (cases "handle_event cnp ev s")
  have r: "r = Inr ()"
  proof (cases "ev = Click")
    case True
    then show ?thesis
      using step no_exit_create_project [of cnp s, OF assms(2)]
      by (simp add: handle_event_def serve_click_unfold)
  next
    case False
    then show ?thesis
      using step handle_event_ok [of ev cnp s] by simp
  qed
  have t: "window_open t = window_open s" "packed t = packed s"
    using step r ev handle_event_open [of ev cnp s] handle_event_packed [of cnp ev s]
    by simp_all
  show ?case
    using Cons.IH [OF rest, of t] by (simp add: step r t)
qed

lemma handle_event_live:
  assumes "window_open s \<longrightarrow>
     (\<exists>a. project_name_entry s = Live a) \<and> (\<exists>b. project_dir_entry s = Live b)"
  shows "window_open (snd (handle_event cnp ev s)) \<longrightarrow>
     (\<exists>a. project_name_entry (snd (handle_event cnp ev s)) = Live a)
     \<and> (\<exists>b. project_dir_entry (snd (handle_event cnp ev s)) = Live b)"
  using assms
  by (cases ev)
    (auto simp: handle_event_def update_def serve_click_unfold click_frame window_open_click
      set_text_def)

lemma activations_complete:
  assumes "window_open s \<longrightarrow>
     (\<exists>a. project_name_entry s = Live a) \<and> (\<exists>b. project_dir_entry s = Live b)"
    and "tr \<in> set (activations cnp evs s)"
  shows "\<exists>a b. tr = [Call_get Project_name_entry, Call_get Project_dir_entry,
                       Call_create_new_project a b]"
  using assms
proof (induction evs arbitrary: s)
  case Nil
  then show ?case by simp
next
  case (Cons ev evs)
  from Cons.prems(2) have op: "window_open s"
    by (auto split: if_splits)
  with Cons.prems(1) obtain a b
    where live: "project_name_entry s = Live a" "project_dir_entry s = Live b"
    by blast
  obtain r t where step: "handle_event cnp ev s = (r, t)"
    by (cases "handle_event cnp ev s")
  from Cons.prems(2) op step consider
      (here) "ev = Click" "tr = activation_trace cnp s"
    | (later) "tr \<in> set (activations cnp evs t)"
    by (cases ev; cases r) auto
  then show ?case
  proof cases
    case here
    then show ?thesis using live by (simp add: activation_trace_unfold)
  next
    case later
    from handle_event_live [OF Cons.prems(1), of cnp ev] step
    have "window_open t \<longrightarrow>
       (\<exists>a. project_name_entry t = Live a) \<and> (\<exists>b. project_dir_entry t = Live b)"
      by simp
    from Cons.IH [OF this later] show ?thesis .
  qed
qed

lemma calls_mainloop:
  "calls (snd (mainloop cnp evs s)) = calls s @ concat (activations cnp evs s)"
proof (induction evs arbitrary: s)
  case Nil
  show ?case by simp
next
  case (Cons ev evs)
  obtain r t where step: "handle_event cnp ev s = (r, t)"
    by (cases "handle_event cnp ev s")
  have t: "calls t = calls s @ (case ev of Click \<Rightarrow> activation_trace cnp s | _ \<Rightarrow> [])"
    using step
    by (cases ev)
      (auto simp: handle_event_def update_def serve_click_unfold click_frame calls_create_project)
  show ?case
  proof (cases "window_open s")
    case False
    then show ?thesis by simp
  next
    case True
    show ?thesis
    proof (cases r)
      case (Inl e)
      then show ?thesis
        using True step t by (cases ev) simp_all
    next
      case (Inr u)
      then show ?thesis
        using True step t Cons.IH [of t] by (cases ev) simp_all
    qed
  qed
qed

text \<open>The example sessions, evaluated.\<close>

lemma session_typed_eq:
  "session_typed =
     \<lparr>window_open = True, title = ''Simple GLM GUI'', geometry = ''750x270'',
      packed = [Entry_widget Project_name_entry, Label_widget ''Choose a project name'',
                Entry_widget Project_dir_entry, Label_widget ''Choose a project directory'',
                Button_widget ''Create a project'' Create_project],
      project_name_entry = Live ''MyProject'', project_dir_entry = Live ''/tmp/projects'',
      project_name = Some [], project_dir = Some [],
      world = [], calls = [Call_get Project_name_entry, Call_get Project_dir_entry],
      reported = []\<rparr>"
  by (simp add: session_typed_def program_unfold module_body_tk_Tk handle_event_def update_def serve_click_unfold set_text_def)

lemma session_created_eq:
  "session_created =
     \<lparr>window_open = True, title = ''Simple GLM GUI'', geometry = ''750x270'',
      packed = [Entry_widget Project_name_entry, Label_widget ''Choose a project name'',
                Entry_widget Project_dir_entry, Label_widget ''Choose a project directory'',
                Button_widget ''Create a project'' Create_project],
      project_name_entry = Live ''MyProject'', project_dir_entry = Live ''/tmp/projects'',
      project_name = Some [], project_dir = Some [],
      world = [''/tmp/projects/MyProject''],
      calls = [Call_get Project_name_entry, Call_get Project_dir_entry,
               Call_get Project_name_entry, Call_get Project_dir_entry,
               Call_create_new_project ''MyProject'' ''/tmp/projects''],
      reported = []\<rparr>"
  by (simp add: session_created_def program_unfold module_body_tk_Tk handle_event_def update_def serve_click_unfold
      set_text_def click_unfold create_project_unfold demo_create_new_project_def Let_def)

lemma session_closed_eq:
  "session_closed =
     \<lparr>window_open = False, title = ''Simple GLM GUI'', geometry = ''750x270'',
      packed = [Entry_widget Project_name_entry, Label_widget ''Choose a project name'',
                Entry_widget Project_dir_entry, Label_widget ''Choose a project directory'',
                Button_widget ''Create a project'' Create_project],
      project_name_entry = Destroyed, project_dir_entry = Destroyed,
      project_name = Some [], project_dir = Some [],
      world = [], calls = [Call_get Project_name_entry, Call_get Project_dir_entry],
      reported = []\<rparr>"
  by (simp add: session_closed_def program_unfold module_body_tk_Tk handle_event_def update_def serve_click_unfold
      set_text_def destroyed_def)

lemma session_other_eq:
  "session_other =
     \<lparr>window_open = True, title = ''Simple GLM GUI'', geometry = ''750x270'',
      packed = [Entry_widget Project_name_entry, Label_widget ''Choose a project name'',
                Entry_widget Project_dir_entry, Label_widget ''Choose a project directory'',
                Button_widget ''Create a project'' Create_project],
      project_name_entry = Live ''MyProject'', project_dir_entry = Live ''/tmp/projects'',
      project_name = None, project_dir = None,
      world = 1,
      calls = [Call_get Project_name_entry, Call_get Project_dir_entry,
               Call_create_new_project ''Other'' []],
      reported = [TclError]\<rparr>"
  by (simp add: session_other_def program_without_reads_unfold module_body_without_reads_tk_Tk
      handle_event_def update_def serve_click_unfold set_text_def click_unfold create_project_unfold)

section \<open>The claims\<close>

text \<open>
  C1. Whatever strings \<open>A\<close> and \<open>B\<close> the project-name entry and the project-directory
  entry hold, activating the button calls \<^verbatim>\<open>create_new_project\<close> exactly once, with
  \<open>A\<close> first and \<open>B\<close> second: the run of the handler makes the one collaborator call
  \<open>(A, B)\<close>, the click adds exactly that call to those made before, and the world is
  the one a single call with \<open>(A, B)\<close> leaves.
\<close>

theorem button_invokes_create_new_project_once:
  assumes "project_name_entry s = Live A" and "project_dir_entry s = Live B"
  shows "collaborator_calls (activation_trace cnp s) = [(A, B)]
       \<and> collaborator_calls (calls (click cnp s)) = collaborator_calls (calls s) @ [(A, B)]
       \<and> world (click cnp s) = snd (cnp A B (world s))"
proof -
  have tr: "activation_trace cnp s =
      [Call_get Project_name_entry, Call_get Project_dir_entry, Call_create_new_project A B]"
    using assms by (simp add: activation_trace_unfold)
  show ?thesis
    using assms
    by (simp add: tr world_create_project click_frame calls_create_project
        collaborator_calls_append)
qed

theorem button_invokes_create_new_project_once_witness:
  "project_name_entry session_typed = Live ''MyProject''
   \<and> project_dir_entry session_typed = Live ''/tmp/projects''
   \<and> collaborator_calls (activation_trace demo_create_new_project session_typed)
       = [(''MyProject'', ''/tmp/projects'')]
   \<and> collaborator_calls (calls (click demo_create_new_project session_typed))
       = [(''MyProject'', ''/tmp/projects'')]
   \<and> world (click demo_create_new_project session_typed) = [''/tmp/projects/MyProject'']"
  using button_invokes_create_new_project_once
    [of session_typed "''MyProject''" "''/tmp/projects''" demo_create_new_project]
  by (simp add: session_typed_eq demo_create_new_project_def Let_def)

text \<open>
  C2. With both entry boxes holding the empty string, activating the button still calls
  \<^verbatim>\<open>create_new_project\<close>, with the pair of empty strings; nothing stands between the
  reads and the call. In particular a click on the freshly built window, both boxes
  untouched, makes the call with two empty strings and no other.
\<close>

theorem empty_fields_still_invoke:
  fixes cnp :: "('w, 'x, 'r) collaborator" and s :: "('w, 'x) gui"
  shows "(project_name_entry s = Live [] \<and> project_dir_entry s = Live [] \<longrightarrow>
      collaborator_calls (activation_trace cnp s) = [([], [])]
      \<and> world (click cnp s) = snd (cnp [] [] (world s)))
   \<and> collaborator_calls (calls (snd (program cnp [Click] w))) = [([], [])]
   \<and> world (snd (program cnp [Click] w)) = snd (cnp [] [] w)"
proof -
  define s0 :: "('w, 'x) gui" where "s0 = snd (module_body (tk_Tk w))"
  have s0: "project_name_entry s0 = Live []" "project_dir_entry s0 = Live []"
    "window_open s0" "world s0 = w" "collaborator_calls (calls s0) = []"
    by (simp_all add: s0_def module_body_tk_Tk)
  have run: "snd (program cnp [Click] w) = click cnp s0"
    by (simp add: program_unfold handle_event_def update_def serve_click_unfold s0 flip: s0_def)
  show ?thesis
    by (simp add: run click_frame calls_create_project collaborator_calls_append
        collaborator_calls_activation world_create_project s0)
qed

theorem empty_fields_still_invoke_witness:
  "project_name_entry (snd (program demo_create_new_project [Type_name ''x'', Type_name []] []))
     = Live []
   \<and> project_dir_entry (snd (program demo_create_new_project [Type_name ''x'', Type_name []] []))
     = Live []
   \<and> collaborator_calls
        (activation_trace demo_create_new_project
           (snd (program demo_create_new_project [Type_name ''x'', Type_name []] [])))
     = [([], [])]
   \<and> world (click demo_create_new_project
               (snd (program demo_create_new_project [Type_name ''x'', Type_name []] [])))
     = [''/'']"
  using empty_fields_still_invoke
    [of "snd (program demo_create_new_project [Type_name ''x'', Type_name []] [])"
        demo_create_new_project]
  by (simp add: program_unfold module_body_tk_Tk handle_event_def update_def serve_click_unfold set_text_def
      demo_create_new_project_def Let_def)

text \<open>
  C3. The handler raises exactly when one of the operations it delegates to raises: the
  read of the name entry, the read of the directory entry, or the call of
  \<^verbatim>\<open>create_new_project\<close> on the two texts. An exception of \<^verbatim>\<open>create_new_project\<close>
  leaves the handler as it is, and the state is then the one the three calls leave, with
  the world as the collaborator left it: nothing is caught, retried or reported by the
  handler.
\<close>

theorem create_project_raises_iff:
  fixes cnp :: "('w, 'x, 'r) collaborator" and s :: "('w, 'x) gui"
  shows "(isl (fst (create_project cnp s)) \<longleftrightarrow>
            isl (fst (entry_get Project_name_entry s))
            \<or> isl (fst (entry_get Project_dir_entry s))
            \<or> (\<exists>a b. fst (entry_get Project_name_entry s) = Inr a
                  \<and> fst (entry_get Project_dir_entry s) = Inr b
                  \<and> isl (fst (cnp a b (world s)))))
       \<and> (\<forall>a b e. fst (entry_get Project_name_entry s) = Inr a \<longrightarrow>
             fst (entry_get Project_dir_entry s) = Inr b \<longrightarrow>
             fst (cnp a b (world s)) = Inl e \<longrightarrow>
             create_project cnp s =
               (Inl e, s\<lparr>world := snd (cnp a b (world s)),
                         calls := calls s @ [Call_get Project_name_entry,
                                             Call_get Project_dir_entry,
                                             Call_create_new_project a b]\<rparr>))
       \<and> reported (snd (create_project cnp s)) = reported s"
proof (intro conjI allI impI)
  show "isl (fst (create_project cnp s)) \<longleftrightarrow>
            isl (fst (entry_get Project_name_entry s))
            \<or> isl (fst (entry_get Project_dir_entry s))
            \<or> (\<exists>a b. fst (entry_get Project_name_entry s) = Inr a
                  \<and> fst (entry_get Project_dir_entry s) = Inr b
                  \<and> isl (fst (cnp a b (world s))))"
    by (cases "project_name_entry s"; cases "project_dir_entry s")
      (auto simp: create_project_unfold fst_entry_get split: sum.splits prod.splits)
next
  fix a b e
  assume "fst (entry_get Project_name_entry s) = Inr a"
    "fst (entry_get Project_dir_entry s) = Inr b"
    "fst (cnp a b (world s)) = Inl e"
  then show "create_project cnp s =
               (Inl e, s\<lparr>world := snd (cnp a b (world s)),
                         calls := calls s @ [Call_get Project_name_entry,
                                             Call_get Project_dir_entry,
                                             Call_create_new_project a b]\<rparr>)"
    by (auto simp: create_project_unfold fst_entry_get split: sum.splits prod.splits entry.splits)
next
  show "reported (snd (create_project cnp s)) = reported s"
    by (simp add: create_project_frame)
qed

theorem create_project_raises_iff_witness:
  "fst (entry_get Project_name_entry session_created) = Inr ''MyProject''
   \<and> fst (entry_get Project_dir_entry session_created) = Inr ''/tmp/projects''
   \<and> fst (demo_create_new_project ''MyProject'' ''/tmp/projects'' (world session_created))
       = Inl (Exc ''FileExistsError'')
   \<and> fst (create_project demo_create_new_project session_created) = Inl (Exc ''FileExistsError'')
   \<and> world (snd (create_project demo_create_new_project session_created)) = world session_created"
proof -
  have h: "fst (entry_get Project_name_entry session_created) = Inr ''MyProject''"
    "fst (entry_get Project_dir_entry session_created) = Inr ''/tmp/projects''"
    "fst (demo_create_new_project ''MyProject'' ''/tmp/projects'' (world session_created))
       = Inl (Exc ''FileExistsError'')"
    by (simp_all add: fst_entry_get session_created_eq demo_create_new_project_def Let_def)
  have w: "snd (demo_create_new_project ''MyProject'' ''/tmp/projects'' (world session_created))
       = world session_created"
    by (simp add: session_created_eq demo_create_new_project_def Let_def)
  from create_project_raises_iff [of demo_create_new_project session_created] h
  have "create_project demo_create_new_project session_created =
      (Inl (Exc ''FileExistsError''),
       session_created
         \<lparr>world := snd (demo_create_new_project ''MyProject'' ''/tmp/projects''
                          (world session_created)),
          calls := calls session_created @ [Call_get Project_name_entry,
                                             Call_get Project_dir_entry,
                                             Call_create_new_project ''MyProject'' ''/tmp/projects'']\<rparr>)"
    by blast
  then show ?thesis using h w by simp
qed

text \<open>
  C4. Activating the button does not change the two entry boxes: both are, after the
  handler has run and after the click has been served, what they were before, whether the
  call of the collaborator returned or raised.
\<close>

theorem create_project_only_reads_entries:
  "project_name_entry (snd (create_project cnp s)) = project_name_entry s
   \<and> project_dir_entry (snd (create_project cnp s)) = project_dir_entry s
   \<and> project_name_entry (click cnp s) = project_name_entry s
   \<and> project_dir_entry (click cnp s) = project_dir_entry s"
  by (simp add: create_project_frame click_frame)

text \<open>
  C5. The two module-level reads of lines 29 and 30 are dead code. For every collaborator,
  every session of user events and every initial world, the script and the script without
  the two statements behave alike; their final states differ in the two module-level
  variables and in the two reads at load time, and in nothing else. The handler does not
  depend on the module-level variables: it gives the same result for any values of them
  and leaves them as they are, its own \<open>project_name\<close> and \<open>project_dir\<close> being
  assigned anew in every run.
\<close>

theorem module_level_reads_are_dead:
  fixes cnp :: "('w, 'x, 'r) collaborator" and s :: "('w, 'x) gui"
  shows "behaviour (program cnp evs w) = behaviour (program_without_reads cnp evs w)
   \<and> snd (program cnp evs w) =
       (snd (program_without_reads cnp evs w))
         \<lparr>project_name := Some [], project_dir := Some [],
          calls := [Call_get Project_name_entry, Call_get Project_dir_entry]
                     @ calls (snd (program_without_reads cnp evs w))\<rparr>
   \<and> create_project cnp (s\<lparr>project_name := p, project_dir := q\<rparr>) =
       (fst (create_project cnp s),
        (snd (create_project cnp s))\<lparr>project_name := p, project_dir := q\<rparr>)"
proof -
  define r t where "r = fst (program_without_reads cnp evs w)"
    and "t = snd (program_without_reads cnp evs w)"
  have without: "program_without_reads cnp evs w = (r, t)"
    by (simp add: r_def t_def)
  have "program cnp evs w =
       (fst (program_without_reads cnp evs w),
        (snd (program_without_reads cnp evs w))
          \<lparr>project_name := Some [], project_dir := Some [],
           calls := [Call_get Project_name_entry, Call_get Project_dir_entry]
                      @ calls (snd (program_without_reads cnp evs w))\<rparr>)"
    unfolding program_unfold program_without_reads_unfold
    by (subst module_body_shift) (rule mainloop_shift)
  then have "with": "program cnp evs w =
       (r, t\<lparr>project_name := Some [], project_dir := Some [],
         calls := [Call_get Project_name_entry, Call_get Project_dir_entry] @ calls t\<rparr>)"
    by (simp add: r_def t_def)
  have hdl: "create_project cnp (s\<lparr>project_name := p, project_dir := q\<rparr>) =
       (fst (create_project cnp s),
        (snd (create_project cnp s))\<lparr>project_name := p, project_dir := q\<rparr>)"
    by (simp add: create_project_unfold split: sum.splits prod.splits entry.splits)
  show ?thesis
    unfolding "with" without by (simp add: behaviour_def hdl)
qed

text \<open>
  C6. The arguments passed to \<^verbatim>\<open>create_new_project\<close> depend on the current text of
  the two entry boxes and on nothing else. Two activations in states with the same entry
  boxes make the same collaborator calls, whatever the two worlds, the calls and the
  exceptions of earlier activations, the module-level variables and even the collaborators
  are; and the arguments are the two texts themselves, character for character.
\<close>

theorem arguments_depend_only_on_entry_text:
  assumes "project_name_entry s1 = project_name_entry s2"
    and "project_dir_entry s1 = project_dir_entry s2"
  shows "collaborator_calls (activation_trace cnp1 s1) = collaborator_calls (activation_trace cnp2 s2)
       \<and> (\<forall>a b. project_name_entry s1 = Live a \<longrightarrow> project_dir_entry s1 = Live b \<longrightarrow>
              collaborator_calls (activation_trace cnp1 s1) = [(a, b)])"
  using assms by (auto simp: collaborator_calls_activation split: entry.splits)

theorem arguments_depend_only_on_entry_text_witness:
  "project_name_entry session_typed = project_name_entry session_other
   \<and> project_dir_entry session_typed = project_dir_entry session_other
   \<and> world session_typed = [] \<and> world session_other = 1
   \<and> project_name session_typed = Some [] \<and> project_name session_other = None
   \<and> collaborator_calls (calls session_other) = [(''Other'', [])]
   \<and> collaborator_calls (activation_trace demo_create_new_project session_typed)
       = collaborator_calls
           (activation_trace (\<lambda>a b n. (Inl TclError :: unit exn + bool, Suc n)) session_other)
   \<and> collaborator_calls (activation_trace demo_create_new_project session_typed)
       = [(''MyProject'', ''/tmp/projects'')]"
proof -
  have h: "project_name_entry session_typed = project_name_entry session_other"
    "project_dir_entry session_typed = project_dir_entry session_other"
    by (simp_all add: session_typed_eq session_other_eq)
  have l: "project_name_entry session_typed = Live ''MyProject''"
    "project_dir_entry session_typed = Live ''/tmp/projects''"
    by (simp_all add: session_typed_eq)
  from arguments_depend_only_on_entry_text
    [OF h, of demo_create_new_project "\<lambda>a b n. (Inl TclError :: unit exn + bool, Suc n)"] l
  have "collaborator_calls (activation_trace demo_create_new_project session_typed)
       = collaborator_calls
           (activation_trace (\<lambda>a b n. (Inl TclError :: unit exn + bool, Suc n)) session_other)"
    "collaborator_calls (activation_trace demo_create_new_project session_typed)
       = [(''MyProject'', ''/tmp/projects'')]"
    by blast+
  then show ?thesis
    using h by (simp add: session_typed_eq session_other_eq)
qed

text \<open>
  C7. The handler uses no return value. It either raises or returns \<open>None\<close>, never a
  value of the collaborator; and whatever the collaborator returns is thrown away:
  changing the returned values by any function \<open>f\<close> changes neither the state the
  handler leaves, nor whether it raises and what, nor the state after the click.
\<close>

theorem return_value_is_discarded:
  "((\<exists>e. fst (create_project cnp s) = Inl e) \<or> fst (create_project cnp s) = Inr None)
   \<and> fst (create_project cnp s) \<noteq> Inr (Some r)
   \<and> snd (create_project (returning f cnp) s) = snd (create_project cnp s)
   \<and> fst (create_project (returning f cnp) s)
       = map_sum id (map_option f) (fst (create_project cnp s))
   \<and> click (returning f cnp) s = click cnp s"
proof -
  have 1: "(\<exists>e. fst (create_project cnp s) = Inl e) \<or> fst (create_project cnp s) = Inr None"
    by (simp add: create_project_unfold split: sum.splits prod.splits entry.splits)
  then have 2: "fst (create_project cnp s) \<noteq> Inr (Some r)"
    by auto
  have 3: "click (returning f cnp) s = click cnp s"
    using 1 by (auto simp: click_unfold returning_create_project split: sum.splits prod.splits)
  show ?thesis
    using 1 2 3 by (simp add: returning_create_project)
qed

text \<open>
  C8 as it stands says that activating the button never ends the process or closes the
  window, whatever the outcome of the call of \<^verbatim>\<open>create_new_project\<close>. One outcome
  does: when the collaborator raises \<open>SystemExit\<close>, the handler lets it through, the
  callback wrapper raises it again, and the main loop and the script end with it. With the
  two entry boxes filled in and such a collaborator, the window is open before the click
  and closed after it, and the script ends in \<open>SystemExit\<close>.
\<close>

theorem window_stays_open_counterexample:
  "window_open session_typed
   \<and> \<not> window_open (click demo_exit session_typed)
   \<and> fst (program demo_exit [Type_name ''MyProject'', Type_dir ''/tmp/projects'', Click] [])
       = Inl SystemExit
   \<and> \<not> window_open
         (snd (program demo_exit [Type_name ''MyProject'', Type_dir ''/tmp/projects'', Click] []))"
  by (simp add: session_typed_eq program_unfold module_body_tk_Tk handle_event_def update_def
      serve_click_unfold set_text_def click_unfold create_project_unfold demo_exit_def)

text \<open>
  C8, in the form that holds. The module body builds the window without an exception, and the window then
  holds exactly three interactive controls: the two entry boxes and one button, labelled
  "Create a project". The handler has no quit, destroy or exit operation of its own: it
  leaves the window and its widgets as they are, whatever the collaborator does. A click
  leaves the widgets as they are; it leaves the window as it is unless the handler ends in
  \<open>SystemExit\<close>, and then the window is closed. With a collaborator that never raises
  \<open>SystemExit\<close>, every session in which the user does not close the window runs to
  its end without an exception, the window open with the same three controls.
\<close>

theorem three_controls_and_window_open_unless_SystemExit:
  fixes cnp :: "('w, 'x, 'r) collaborator" and s :: "('w, 'x) gui"
  shows "fst (module_body (tk_Tk w) :: ('x exn + unit) \<times> ('w, 'x) gui) = Inr ()
   \<and> filter interactive (packed (snd (module_body (tk_Tk w) :: ('x exn + unit) \<times> ('w, 'x) gui)))
       = [Entry_widget Project_name_entry, Entry_widget Project_dir_entry,
          Button_widget ''Create a project'' Create_project]
   \<and> window_open (snd (create_project cnp s)) = window_open s
   \<and> packed (snd (create_project cnp s)) = packed s
   \<and> packed (click cnp s) = packed s
   \<and> (fst (create_project cnp s) \<noteq> Inl SystemExit \<longrightarrow>
        window_open (click cnp s) = window_open s)
   \<and> (fst (create_project cnp s) = Inl SystemExit \<longrightarrow> \<not> window_open (click cnp s))
   \<and> (Close \<notin> set evs \<and> (\<forall>a b v. fst (cnp a b v) \<noteq> Inl SystemExit) \<longrightarrow>
        fst (program cnp evs w) = Inr ()
        \<and> window_open (snd (program cnp evs w))
        \<and> filter interactive (packed (snd (program cnp evs w)))
            = [Entry_widget Project_name_entry, Entry_widget Project_dir_entry,
               Button_widget ''Create a project'' Create_project])"
proof -
  have session: "fst (program cnp evs w) = Inr ()
        \<and> window_open (snd (program cnp evs w))
        \<and> filter interactive (packed (snd (program cnp evs w)))
            = [Entry_widget Project_name_entry, Entry_widget Project_dir_entry,
               Button_widget ''Create a project'' Create_project]"
    if "Close \<notin> set evs" and "\<forall>a b v. fst (cnp a b v) \<noteq> Inl SystemExit"
  proof -
    from that(2) have "\<And>a b v. fst (cnp a b v) \<noteq> Inl SystemExit"
      by blast
    from mainloop_stays_open [OF that(1) this, where s = "snd (module_body (tk_Tk w))"]
    show ?thesis
      by (simp add: program_unfold) (simp add: module_body_tk_Tk)
  qed
  show ?thesis
    using session
    by (simp add: module_body_tk_Tk create_project_frame click_frame window_open_click)
qed

theorem three_controls_and_window_open_unless_SystemExit_witness:
  "Close \<notin> set [Type_name ''MyProject'', Type_dir ''/tmp/projects'', Click, Click]
   \<and> (\<forall>a b v. fst (demo_create_new_project a b v) \<noteq> Inl SystemExit)
   \<and> fst (program demo_create_new_project
         [Type_name ''MyProject'', Type_dir ''/tmp/projects'', Click, Click] []) = Inr ()
   \<and> reported (snd (program demo_create_new_project
         [Type_name ''MyProject'', Type_dir ''/tmp/projects'', Click, Click] []))
       = [Exc ''FileExistsError'']
   \<and> window_open (snd (program demo_create_new_project
         [Type_name ''MyProject'', Type_dir ''/tmp/projects'', Click, Click] []))
   \<and> length (filter interactive (packed (snd (program demo_create_new_project
         [Type_name ''MyProject'', Type_dir ''/tmp/projects'', Click, Click] [])))) = 3
   \<and> fst (create_project demo_create_new_project session_created) \<noteq> Inl SystemExit
   \<and> window_open (click demo_create_new_project session_created)
   \<and> fst (create_project demo_exit session_typed) = Inl SystemExit
   \<and> \<not> window_open (click demo_exit session_typed)"
proof -
  have h: "Close \<notin> set [Type_name ''MyProject'', Type_dir ''/tmp/projects'', Click, Click]"
    by simp
  have n: "\<forall>a b v. fst (demo_create_new_project a b v) \<noteq> Inl SystemExit"
    by (simp add: demo_create_new_project_def Let_def)
  have r: "reported (snd (program demo_create_new_project
         [Type_name ''MyProject'', Type_dir ''/tmp/projects'', Click, Click] []))
       = [Exc ''FileExistsError'']"
    by (simp add: program_unfold module_body_tk_Tk handle_event_def update_def
        serve_click_unfold set_text_def click_unfold create_project_unfold
        demo_create_new_project_def Let_def)
  have c: "fst (create_project demo_create_new_project session_created) \<noteq> Inl SystemExit"
    "window_open session_created"
    by (simp_all add: session_created_eq create_project_unfold demo_create_new_project_def Let_def)
  have x: "fst (create_project demo_exit session_typed) = Inl SystemExit"
    by (simp add: session_typed_eq create_project_unfold demo_exit_def)
  from three_controls_and_window_open_unless_SystemExit
    [where cnp = demo_create_new_project and s = session_created and w = "[]"
       and evs = "[Type_name ''MyProject'', Type_dir ''/tmp/projects'', Click, Click]"] h n c
  have 1: "fst (program demo_create_new_project
         [Type_name ''MyProject'', Type_dir ''/tmp/projects'', Click, Click] []) = Inr ()"
    "window_open (snd (program demo_create_new_project
         [Type_name ''MyProject'', Type_dir ''/tmp/projects'', Click, Click] []))"
    "filter interactive (packed (snd (program demo_create_new_project
         [Type_name ''MyProject'', Type_dir ''/tmp/projects'', Click, Click] [])))
            = [Entry_widget Project_name_entry, Entry_widget Project_dir_entry,
               Button_widget ''Create a project'' Create_project]"
    "window_open (click demo_create_new_project session_created)"
    by blast+
  from three_controls_and_window_open_unless_SystemExit
    [where cnp = demo_exit and s = session_typed and w = "[]" and evs = "[]"] x
  have 2: "\<not> window_open (click demo_exit session_typed)"
    by blast
  show ?thesis
    using h n r c(1) x 1 2 by simp
qed

text \<open>
  C9. The collaborator is called only after both reads have succeeded. If the read of the
  name entry raises, the handler raises the same exception, the directory entry is not
  read and \<^verbatim>\<open>create_new_project\<close> is not called: the state is the one before, but for
  the record of calls. If the read of the name entry succeeds and that of the directory
  entry raises, the handler raises the same exception and \<^verbatim>\<open>create_new_project\<close> is
  not called. Conversely, a call of \<^verbatim>\<open>create_new_project\<close> in the trace of an activation
  has for arguments the values that the two reads returned.
\<close>

theorem call_only_after_both_reads:
  fixes cnp :: "('w, 'x, 'r) collaborator" and s :: "('w, 'x) gui"
  shows "(\<forall>e. fst (entry_get Project_name_entry s) = Inl e \<longrightarrow>
            fst (create_project cnp s) = Inl e
            \<and> Call_get Project_dir_entry \<notin> set (activation_trace cnp s)
            \<and> collaborator_calls (activation_trace cnp s) = []
            \<and> snd (create_project cnp s) = s\<lparr>calls := calls s @ activation_trace cnp s\<rparr>)
       \<and> (\<forall>a e. fst (entry_get Project_name_entry s) = Inr a \<longrightarrow>
                  fst (entry_get Project_dir_entry s) = Inl e \<longrightarrow>
            fst (create_project cnp s) = Inl e
            \<and> collaborator_calls (activation_trace cnp s) = []
            \<and> snd (create_project cnp s) = s\<lparr>calls := calls s @ activation_trace cnp s\<rparr>)
       \<and> (\<forall>a b. Call_create_new_project a b \<in> set (activation_trace cnp s) \<longrightarrow>
                  fst (entry_get Project_name_entry s) = Inr a
                  \<and> fst (entry_get Project_dir_entry s) = Inr b)"
proof -
  have 1: "fst (create_project cnp s) = Inl e
            \<and> Call_get Project_dir_entry \<notin> set (activation_trace cnp s)
            \<and> collaborator_calls (activation_trace cnp s) = []
            \<and> snd (create_project cnp s) = s\<lparr>calls := calls s @ activation_trace cnp s\<rparr>"
    if "fst (entry_get Project_name_entry s) = Inl e" for e
    using that
    by (cases "project_name_entry s")
      (simp_all add: fst_entry_get create_project_unfold activation_trace_unfold)
  have 2: "fst (create_project cnp s) = Inl e
            \<and> collaborator_calls (activation_trace cnp s) = []
            \<and> snd (create_project cnp s) = s\<lparr>calls := calls s @ activation_trace cnp s\<rparr>"
    if "fst (entry_get Project_name_entry s) = Inr a"
      and "fst (entry_get Project_dir_entry s) = Inl e" for a e
    using that
    by (cases "project_name_entry s"; cases "project_dir_entry s")
      (simp_all add: fst_entry_get create_project_unfold activation_trace_unfold)
  have 3: "fst (entry_get Project_name_entry s) = Inr a
         \<and> fst (entry_get Project_dir_entry s) = Inr b"
    if "Call_create_new_project a b \<in> set (activation_trace cnp s)" for a b
    using that
    by (cases "project_name_entry s"; cases "project_dir_entry s")
      (simp_all add: fst_entry_get activation_trace_unfold)
  show ?thesis
    using 1 2 3 by blast
qed

theorem call_only_after_both_reads_witness:
  "fst (entry_get Project_name_entry session_closed) = Inl TclError
   \<and> fst (create_project demo_create_new_project session_closed) = Inl TclError
   \<and> activation_trace demo_create_new_project session_closed = [Call_get Project_name_entry]
   \<and> world (snd (create_project demo_create_new_project session_closed)) = world session_closed
   \<and> fst (entry_get Project_name_entry session_dir_gone) = Inr ''MyProject''
   \<and> fst (entry_get Project_dir_entry session_dir_gone) = Inl TclError
   \<and> fst (create_project demo_create_new_project session_dir_gone) = Inl TclError
   \<and> collaborator_calls (activation_trace demo_create_new_project session_dir_gone) = []
   \<and> world (snd (create_project demo_create_new_project session_dir_gone))
       = world session_dir_gone
   \<and> Call_create_new_project ''MyProject'' ''/tmp/projects''
        \<in> set (activation_trace demo_create_new_project session_typed)
   \<and> fst (entry_get Project_name_entry session_typed) = Inr ''MyProject''
   \<and> fst (entry_get Project_dir_entry session_typed) = Inr ''/tmp/projects''"
proof -
  have h1: "fst (entry_get Project_name_entry session_closed) = Inl TclError"
    by (simp add: fst_entry_get session_closed_eq)
  have t1: "activation_trace demo_create_new_project session_closed = [Call_get Project_name_entry]"
    by (simp add: activation_trace_unfold session_closed_eq)
  have h2: "fst (entry_get Project_name_entry session_dir_gone) = Inr ''MyProject''"
    "fst (entry_get Project_dir_entry session_dir_gone) = Inl TclError"
    by (simp_all add: fst_entry_get session_dir_gone_def session_typed_eq)
  have h3: "Call_create_new_project ''MyProject'' ''/tmp/projects''
        \<in> set (activation_trace demo_create_new_project session_typed)"
    by (simp add: activation_trace_unfold session_typed_eq)
  from call_only_after_both_reads [of session_closed demo_create_new_project] h1
  have c1: "fst (create_project demo_create_new_project session_closed) = Inl TclError"
    "snd (create_project demo_create_new_project session_closed)
       = session_closed\<lparr>calls := calls session_closed
           @ activation_trace demo_create_new_project session_closed\<rparr>"
    by blast+
  from call_only_after_both_reads [of session_dir_gone demo_create_new_project] h2
  have c2: "fst (create_project demo_create_new_project session_dir_gone) = Inl TclError"
    "collaborator_calls (activation_trace demo_create_new_project session_dir_gone) = []"
    "snd (create_project demo_create_new_project session_dir_gone)
       = session_dir_gone\<lparr>calls := calls session_dir_gone
           @ activation_trace demo_create_new_project session_dir_gone\<rparr>"
    by blast+
  from call_only_after_both_reads [of session_typed demo_create_new_project] h3
  have c3: "fst (entry_get Project_name_entry session_typed) = Inr ''MyProject''"
    "fst (entry_get Project_dir_entry session_typed) = Inr ''/tmp/projects''"
    by blast+
  show ?thesis
    using h1 t1 h2 h3 c1 c2 c3 by simp
qed

text \<open>
  C10. In every activation of the handler each entry box is read exactly once, the name
  entry before the directory entry, and the directory entry before
  \<^verbatim>\<open>create_new_project\<close> is called. For the handler in any state, the calls it makes
  are an initial part of: read of the name entry, read of the directory entry, call of the
  collaborator; they are all three, in this order, when both entry boxes are live. Every
  activation that the main loop starts, in any session of the script, is of this kind,
  and the calls of the session are those of the module body followed by those of its
  activations.
\<close>

theorem reads_once_each_in_order:
  fixes cnp :: "('w, 'x, 'r) collaborator" and s :: "('w, 'x) gui"
  shows "(\<exists>a b. prefix (activation_trace cnp s)
                   [Call_get Project_name_entry, Call_get Project_dir_entry,
                    Call_create_new_project a b])
       \<and> (\<forall>a b. project_name_entry s = Live a \<longrightarrow> project_dir_entry s = Live b \<longrightarrow>
             activation_trace cnp s
               = [Call_get Project_name_entry, Call_get Project_dir_entry,
                  Call_create_new_project a b])
       \<and> (\<forall>tr \<in> set (activations cnp evs (snd (module_body (tk_Tk w)))).
             \<exists>a b. tr = [Call_get Project_name_entry, Call_get Project_dir_entry,
                          Call_create_new_project a b])
       \<and> calls (snd (program cnp evs w))
           = [Call_get Project_name_entry, Call_get Project_dir_entry]
               @ concat (activations cnp evs (snd (module_body (tk_Tk w))))"
proof (intro conjI allI impI ballI)
  show "\<exists>a b. prefix (activation_trace cnp s)
                   [Call_get Project_name_entry, Call_get Project_dir_entry,
                    Call_create_new_project a b]"
    by (cases "project_name_entry s"; cases "project_dir_entry s")
      (simp_all add: activation_trace_unfold)
next
  fix a b
  assume "project_name_entry s = Live a" "project_dir_entry s = Live b"
  then show "activation_trace cnp s
               = [Call_get Project_name_entry, Call_get Project_dir_entry,
                  Call_create_new_project a b]"
    by (simp add: activation_trace_unfold)
next
  fix tr
  assume "tr \<in> set (activations cnp evs (snd (module_body (tk_Tk w))))"
  then show "\<exists>a b. tr = [Call_get Project_name_entry, Call_get Project_dir_entry,
                          Call_create_new_project a b]"
    by (rule activations_complete [rotated]) (simp add: module_body_tk_Tk)
next
  show "calls (snd (program cnp evs w))
           = [Call_get Project_name_entry, Call_get Project_dir_entry]
               @ concat (activations cnp evs (snd (module_body (tk_Tk w))))"
    by (simp add: program_unfold calls_mainloop) (simp add: module_body_tk_Tk)
qed

theorem reads_once_each_in_order_witness:
  "[Call_get Project_name_entry, Call_get Project_dir_entry,
    Call_create_new_project ''MyProject'' ''/tmp/projects'']
     \<in> set (activations demo_create_new_project
              [Type_name ''MyProject'', Type_dir ''/tmp/projects'', Click, Close, Click]
              (snd (module_body (tk_Tk []))))
   \<and> length (activations demo_create_new_project
              [Type_name ''MyProject'', Type_dir ''/tmp/projects'', Click, Close, Click]
              (snd (module_body (tk_Tk [])))) = 1
   \<and> project_name_entry session_typed = Live ''MyProject''
   \<and> project_dir_entry session_typed = Live ''/tmp/projects''
   \<and> activation_trace demo_create_new_project session_typed
       = [Call_get Project_name_entry, Call_get Project_dir_entry,
          Call_create_new_project ''MyProject'' ''/tmp/projects'']"
proof -
  have l: "project_name_entry session_typed = Live ''MyProject''"
    "project_dir_entry session_typed = Live ''/tmp/projects''"
    by (simp_all add: session_typed_eq)
  have a: "activations demo_create_new_project
              [Type_name ''MyProject'', Type_dir ''/tmp/projects'', Click, Close, Click]
              (snd (module_body (tk_Tk []))) =
      [[Call_get Project_name_entry, Call_get Project_dir_entry,
        Call_create_new_project ''MyProject'' ''/tmp/projects'']]"
    by (simp add: module_body_tk_Tk handle_event_def update_def serve_click_unfold set_text_def click_frame
        activation_trace_unfold)
  from reads_once_each_in_order
    [where cnp = demo_create_new_project and s = session_typed and w = "[]"
       and evs = "[Type_name ''MyProject'', Type_dir ''/tmp/projects'', Click, Close, Click]"] l
  have "activation_trace demo_create_new_project session_typed
       = [Call_get Project_name_entry, Call_get Project_dir_entry,
          Call_create_new_project ''MyProject'' ''/tmp/projects'']"
    by blast
  then show ?thesis using l a by simp
qed

end
